theory Spec2Isabelle
  imports Main
begin

section \<open>Python values, objects and errors\<close>

text \<open>
  The mapping layer of \<^verbatim>\<open>orm.py\<close> handles Python objects through their attribute
  dictionaries (\<^verbatim>\<open>vars(obj)\<close>, \<^verbatim>\<open>obj.__dict__\<close>). A dictionary is an association list
  in insertion order; its keys are pairwise distinct. The values a record carries are
  \<^verbatim>\<open>None\<close>, integers and strings (floating point values are left out of the model).
\<close>

datatype pyval = PNone | PInt int | PStr string

type_synonym pydict = "(string \<times> pyval) list"

text \<open>
  Every \<^verbatim>\<open>raise\<close> of the source and every exception of the Python runtime or of the
  \<^verbatim>\<open>sqlite3\<close> module that the modelled paths can meet is a value. The source raises
  \<^verbatim>\<open>ValueError\<close> at three places, which differ by their message; each has a constructor:
  \<^item> \<open>DuplicateId v\<close>: \<^verbatim>\<open>ValueError('Object%s id already registred: %s')\<close> of \<^verbatim>\<open>Manager.save\<close>;
  \<^item> \<open>NotFound v\<close>: \<^verbatim>\<open>ValueError('Object%s with id does not exist: %s')\<close> of \<^verbatim>\<open>Manager.get\<close>;
  \<^item> \<open>InvalidColumn k\<close>: \<^verbatim>\<open>ValueError("Invalid column \"%s\"")\<close> of \<^verbatim>\<open>QueryBuilder.filter\<close>.
\<close>

datatype error =
    DuplicateId pyval
  | NotFound pyval
  | InvalidColumn string
  | IndexError
  | TypeError
  | AttributeError string
  | OverflowError
  | OperationalError string

subsection \<open>\<^verbatim>\<open>str(value)\<close> and \<^verbatim>\<open>sep.join(xs)\<close>\<close>

definition digit_char :: "nat \<Rightarrow> char" where
  "digit_char d = (''0123456789'' ! (d mod 10))"

fun str_nat :: "nat \<Rightarrow> string" where
  "str_nat n = (if n < 10 then [digit_char n] else str_nat (n div 10) @ [digit_char (n mod 10)])"

declare str_nat.simps [simp del]

definition str_int :: "int \<Rightarrow> string" where
  "str_int i = (if i < 0 then CHR ''-'' # str_nat (nat (- i)) else str_nat (nat i))"

fun str :: "pyval \<Rightarrow> string" where
  "str PNone = ''None''"
| "str (PInt i) = str_int i"
| "str (PStr s) = s"

fun join :: "string \<Rightarrow> string list \<Rightarrow> string" where
  "join sep [] = []"
| "join sep [x] = x"
| "join sep (x # y # ys) = x @ sep @ join sep (y # ys)"

section \<open>The schema synthesizer: \<^verbatim>\<open>render_schema\<close>\<close>

text \<open>
  A model class is its \<^verbatim>\<open>__name__\<close> and its own attribute dictionary \<^verbatim>\<open>vars(model)\<close>,
  in declaration order. An attribute's value is one of the type objects \<^verbatim>\<open>str\<close>,
  \<^verbatim>\<open>int\<close>, \<^verbatim>\<open>float\<close>, or something else: a hashable object (a function, a docstring,
  \<^verbatim>\<open>None\<close>) or an unhashable one (a list), on which the membership test
  \<^verbatim>\<open>value in datatypes.keys()\<close> raises \<^verbatim>\<open>TypeError\<close>.
\<close>

datatype pyattr = AStr | AInt | AFloat | AOther | AUnhashable

record model =
  name :: string
  attrs :: "(string \<times> pyattr) list"

text \<open>\<^verbatim>\<open>datatypes = {str: 'text', int: 'integer', float: 'real'}\<close>\<close>

fun datatypes_tbl :: "pyattr \<Rightarrow> string option" where
  "datatypes_tbl AStr = Some ''text''"
| "datatypes_tbl AInt = Some ''integer''"
| "datatypes_tbl AFloat = Some ''real''"
| "datatypes_tbl _ = None"

text \<open>
  \<^verbatim>\<open>key[0] is not '_'\<close>, the left operand of \<^verbatim>\<open>iscol\<close> and the filter of
  \<^verbatim>\<open>valid_keyvals\<close>. \<^verbatim>\<open>key[0]\<close> raises \<^verbatim>\<open>IndexError\<close> on the empty name. \<^verbatim>\<open>is not\<close>
  compares the identity of two objects, not their contents. Two strings that differ are
  never one object, so the test holds of every name that does not start with an
  underscore. On a name that starts with one, the test asks whether \<^verbatim>\<open>key[0]\<close> is the
  very object of the literal \<^verbatim>\<open>'_'\<close>: under CPython 3.11 and 3.12 it is not, so the test
  holds of these names too (\<^verbatim>\<open>'_hidden'[0] is not '_'\<close> is \<^verbatim>\<open>True\<close>).
\<close>

fun is_not_underscore :: "string \<Rightarrow> error + bool" where
  "is_not_underscore [] = Inl IndexError"
| "is_not_underscore (c # cs) = Inr True"

text \<open>
  \<^verbatim>\<open>iscol = lambda key, value: key[0] is not '_' and value in datatypes.keys()\<close>.
  \<^verbatim>\<open>and\<close> evaluates its right operand only when the left one holds; the membership test
  hashes the value and raises \<^verbatim>\<open>TypeError\<close> on an unhashable one.
\<close>

definition iscol :: "string \<Rightarrow> pyattr \<Rightarrow> error + bool" where
  "iscol key value =
     (case is_not_underscore key of
        Inl e \<Rightarrow> Inl e
      | Inr b \<Rightarrow>
          if b then (if value = AUnhashable then Inl TypeError else Inr (datatypes_tbl value \<noteq> None))
          else Inr False)"

text \<open>
  \<^verbatim>\<open>colrender = lambda key, value: '%s %s' % (key, datatypes[value])\<close>. It is called
  on the items that pass \<^verbatim>\<open>iscol\<close> only, where the lookup in \<^verbatim>\<open>datatypes\<close> succeeds.
\<close>

definition colrender :: "string \<Rightarrow> pyattr \<Rightarrow> string" where
  "colrender key value = key @ '' '' @ (case datatypes_tbl value of Some t \<Rightarrow> t | None \<Rightarrow> [])"

text \<open>
  \<^verbatim>\<open>cols = [colrender(*i) for i in vars(model).items() if iscol(*i)]\<close>: the
  comprehension stops at the first item on which \<^verbatim>\<open>iscol\<close> raises.
\<close>

fun cols :: "(string \<times> pyattr) list \<Rightarrow> error + string list" where
  "cols [] = Inr []"
| "cols ((key, value) # items) =
     (case iscol key value of
        Inl e \<Rightarrow> Inl e
      | Inr b \<Rightarrow>
          (case cols items of
             Inl e \<Rightarrow> Inl e
           | Inr rest \<Rightarrow> Inr (if b then colrender key value # rest else rest)))"

definition render_schema :: "model \<Rightarrow> error + string" where
  "render_schema m =
     (case cols (attrs m) of
        Inl e \<Rightarrow> Inl e
      | Inr cs \<Rightarrow>
          Inr (''create table '' @ name m @ '' (id integer primary key autoincrement, ''
               @ join '', '' cs @ '');''))"

section \<open>The query builder\<close>

text \<open>
  A \<^verbatim>\<open>QueryBuilder\<close> holds its model class and the token buffer \<^verbatim>\<open>query_tokens\<close>.
  Its methods mutate the buffer in place; in the model each method takes the builder and
  returns the builder it leaves behind, together with the exception it raised, if any.
\<close>

record querybuilder =
  qb_model :: model
  query_tokens :: "string list"

definition EQUAL :: string where "EQUAL = ''=''"
definition NOT_EQUAL :: string where "NOT_EQUAL = ''!=''"
definition AND :: string where "AND = ''AND''"
definition OR :: string where "OR = ''OR''"
definition LIMIT :: string where "LIMIT = ''limit''"

definition QueryBuilder_init :: "model \<Rightarrow> querybuilder" where
  "QueryBuilder_init m = \<lparr>qb_model = m, query_tokens = []\<rparr>"

text \<open>
  \<^verbatim>\<open>valid_keyvals = dict(i for i in vars(self.model).items() if i[0][0] is not '_')\<close>;
  only its keys are used. The filter is the identity test of \<open>is_not_underscore\<close>.
\<close>

fun valid_keyvals :: "(string \<times> pyattr) list \<Rightarrow> error + string list" where
  "valid_keyvals [] = Inr []"
| "valid_keyvals ((key, value) # items) =
     (case is_not_underscore key of
        Inl e \<Rightarrow> Inl e
      | Inr b \<Rightarrow>
          (case valid_keyvals items of
             Inl e \<Rightarrow> Inl e
           | Inr rest \<Rightarrow> Inr (if b then key # rest else rest)))"

text \<open>
  The loop of \<^verbatim>\<open>filter\<close> over \<^verbatim>\<open>kwargs.items()\<close>, in the order in which the
  dictionary yields them. A valid key extends the buffer at once
  (\<^verbatim>\<open>self.query_tokens += [key] + [comparator] + [str(value)] + [boolean]\<close>); the first
  invalid key raises, and the buffer stays as the loop has left it.
\<close>

fun filter_loop ::
  "string list \<Rightarrow> string \<Rightarrow> string \<Rightarrow> pydict \<Rightarrow> string list \<Rightarrow> error option \<times> string list"
where
  "filter_loop valid comparator boolean [] tokens = (None, tokens)"
| "filter_loop valid comparator boolean ((key, value) # kwargs) tokens =
     (if key \<in> set valid
      then filter_loop valid comparator boolean kwargs
             (tokens @ [key] @ [comparator] @ [str value] @ [boolean])
      else (Some (InvalidColumn key), tokens))"

text \<open>
  \<^verbatim>\<open>filter(self, comparator=EQUAL, boolean=AND, **kwargs)\<close>. After the loop,
  \<^verbatim>\<open>self.query_tokens[:-1]\<close> drops the last token of a non-empty buffer.
\<close>

definition QueryBuilder_filter ::
  "string \<Rightarrow> string \<Rightarrow> pydict \<Rightarrow> querybuilder \<Rightarrow> error option \<times> querybuilder"
where
  "QueryBuilder_filter comparator boolean kwargs q =
     (case valid_keyvals (attrs (qb_model q)) of
        Inl e \<Rightarrow> (Some e, q)
      | Inr valid \<Rightarrow>
          (case filter_loop valid comparator boolean kwargs (query_tokens q) of
             (Some e, tokens) \<Rightarrow> (Some e, q\<lparr>query_tokens := tokens\<rparr>)
           | (None, tokens) \<Rightarrow>
               (None, q\<lparr>query_tokens := (if length tokens > 0 then butlast tokens else tokens)\<rparr>)))"

text \<open>\<^verbatim>\<open>limit(self, num)\<close>: \<^verbatim>\<open>self.query_tokens += [self.LIMIT] + [str(num)]\<close>.\<close>

definition QueryBuilder_limit :: "pyval \<Rightarrow> querybuilder \<Rightarrow> querybuilder" where
  "QueryBuilder_limit num q = q\<lparr>query_tokens := query_tokens q @ [LIMIT] @ [str num]\<rparr>"

text \<open>
  A call of \<^verbatim>\<open>Database.execute(sql, *args)\<close> is the SQL text and the tuple of bound
  parameters. \<^verbatim>\<open>QueryBuilder.delete\<close> makes one call, without parameters:
  \<^verbatim>\<open>"delete from %s where %s" % (self.model.__name__, " ".join(self.query_tokens))\<close>.
\<close>

type_synonym call = "string \<times> pyval list"

definition QueryBuilder_delete :: "querybuilder \<Rightarrow> call" where
  "QueryBuilder_delete q =
     (''delete from '' @ name (qb_model q) @ '' where '' @ join '' '' (query_tokens q), [])"

text \<open>
  \<^verbatim>\<open>update(self, **kwargs)\<close> has the body \<^verbatim>\<open>pass\<close>: it raises nothing, makes no call
  of \<^verbatim>\<open>execute\<close> and leaves the builder as it is.
\<close>

definition QueryBuilder_update :: "pydict \<Rightarrow> querybuilder \<Rightarrow> error option \<times> call list \<times> querybuilder" where
  "QueryBuilder_update kwargs q = (None, [], q)"

text \<open>
  The statement on lines 164 and 165 of the source, in \<^verbatim>\<open>QueryBuilder.select\<close>, is not
  well-formed Python: the call of \<^verbatim>\<open>execute\<close> is not closed before \<^verbatim>\<open>return\<close>. The
  method has no model.
\<close>

section \<open>The storage engine behind \<^verbatim>\<open>Database.execute\<close>\<close>

text \<open>
  \<^verbatim>\<open>Database.execute(sql, *args)\<close> hands the SQL text and the bound parameters to
  \<^verbatim>\<open>sqlite3\<close>. The engine is not part of the repository; the model gives it the
  behaviour that the statements of \<^verbatim>\<open>Manager\<close> rely on:
  \<^item> a table has the declared columns that follow \<^verbatim>\<open>id\<close>, its rows (the row id and one
    value for each declared column), and the counter of \<^verbatim>\<open>autoincrement\<close>, the
    largest row id generated so far;
  \<^item> a statement is prepared first (unknown table, unknown column, syntax), then its
    parameters are bound (an integer outside 64 bits raises \<^verbatim>\<open>OverflowError\<close>), then
    it runs.
  The model is the engine's behaviour on the statements in which the column names are
  declared names written as declared, the id parameter is an integer or \<^verbatim>\<open>None\<close>, each
  value is \<^verbatim>\<open>None\<close> or of its column's type, and the row ids are not exhausted. Outside
  of these it gives an answer that SQLite does not: SQLite compares identifiers without
  regard to case and knows aliases of \<^verbatim>\<open>id\<close>, converts a value to the type of its column
  and a text that spells a number to that number before \<^verbatim>\<open>id = ?\<close>, and rolls the open
  transaction back when no row id is left. The theorems of the claims below are stated
  on inputs of the first kind (integer ids, the example records), or are about what
  these differences do not touch: which columns a statement names, and that a row has a
  value for each column.
  A statement stands for one call of \<^verbatim>\<open>execute\<close>; \<open>sql_text\<close> and \<open>sql_args\<close> give the
  text and the parameters that the source assembles for it.
\<close>

record table =
  columns :: "string list"
  rows :: "(int \<times> pyval list) list"
  seq :: int

type_synonym database = "string \<rightharpoonup> table"

datatype statement =
    SelectAll string
  | SelectById string pyval
  | SelectIdById string pyval
  | InsertInto string "string list" "pyval list"
  | UpdateById string "string list" "pyval list" pyval
  | DeleteById string pyval

fun sql_text :: "statement \<Rightarrow> string" where
  "sql_text (SelectAll tn) = ''select * from '' @ tn"
| "sql_text (SelectById tn p) = ''select * from '' @ tn @ '' where id = ?''"
| "sql_text (SelectIdById tn p) = ''select id from '' @ tn @ '' where id = ?''"
| "sql_text (InsertInto tn keys vals) =
     ''insert into '' @ tn @ '' '' @ (''('' @ join '', '' keys @ '')'') @ '' values ''
       @ (''('' @ join '', '' (map (\<lambda>i. ''?'') keys) @ '')'')"
| "sql_text (UpdateById tn keys vals p) =
     ''UPDATE '' @ tn @ '' SET '' @ (join ''= ?, '' keys @ ''= ?'') @ '' WHERE id = ?''"
| "sql_text (DeleteById tn p) = ''DELETE from '' @ tn @ '' WHERE id = ?''"

fun sql_args :: "statement \<Rightarrow> pyval list" where
  "sql_args (SelectAll tn) = []"
| "sql_args (SelectById tn p) = [p]"
| "sql_args (SelectIdById tn p) = [p]"
| "sql_args (InsertInto tn keys vals) = vals"
| "sql_args (UpdateById tn keys vals p) = vals @ [p]"
| "sql_args (DeleteById tn p) = [p]"

fun table_of :: "statement \<Rightarrow> string" where
  "table_of (SelectAll tn) = tn"
| "table_of (SelectById tn p) = tn"
| "table_of (SelectIdById tn p) = tn"
| "table_of (InsertInto tn keys vals) = tn"
| "table_of (UpdateById tn keys vals p) = tn"
| "table_of (DeleteById tn p) = tn"

definition MAX_ROWID :: int where
  "MAX_ROWID = 9223372036854775807"

fun bindable :: "pyval \<Rightarrow> bool" where
  "bindable (PInt i) = (- MAX_ROWID - 1 \<le> i \<and> i \<le> MAX_ROWID)"
| "bindable v = True"

text \<open>The result of a call: the rows to fetch, each as a mapping, and \<^verbatim>\<open>lastrowid\<close>.\<close>

record cursor =
  fetchall :: "pydict list"
  lastrowid :: "int option"

definition row_dict :: "table \<Rightarrow> int \<times> pyval list \<Rightarrow> pydict" where
  "row_dict t row = (''id'', PInt (fst row)) # zip (columns t) (snd row)"

definition id_is :: "pyval \<Rightarrow> int \<times> pyval list \<Rightarrow> bool" where
  "id_is p row = (p = PInt (fst row))"

text \<open>
  The next row id of an \<^verbatim>\<open>autoincrement\<close> key is one more than the largest id that
  the table holds or has ever generated.
\<close>

definition next_rowid :: "table \<Rightarrow> int" where
  "next_rowid t = fold max (map fst (rows t)) (seq t) + 1"

text \<open>The values of a new row: the bound value of a named column, \<^verbatim>\<open>NULL\<close> elsewhere.\<close>

definition new_row :: "table \<Rightarrow> string list \<Rightarrow> pyval list \<Rightarrow> pyval list" where
  "new_row t keys vals =
     map (\<lambda>c. case map_of (zip keys vals) c of Some v \<Rightarrow> v | None \<Rightarrow> PNone) (columns t)"

definition set_row :: "table \<Rightarrow> string list \<Rightarrow> pyval list \<Rightarrow> pyval list \<Rightarrow> pyval list" where
  "set_row t keys vals old =
     map (\<lambda>(c, v). case map_of (zip keys vals) c of Some v' \<Rightarrow> v' | None \<Rightarrow> v)
       (zip (columns t) old)"

text \<open>Preparing a statement against its table: the errors that precede any binding.\<close>

fun prepare :: "table \<Rightarrow> statement \<Rightarrow> error option" where
  "prepare t (InsertInto tn keys vals) =
     (if keys = [] then Some (OperationalError ''syntax error'')
      else if \<not> set keys \<subseteq> set (columns t) then Some (OperationalError ''no such column'')
      else None)"
| "prepare t (UpdateById tn keys vals p) =
     (if keys = [] then Some (OperationalError ''syntax error'')
      else if \<not> set keys \<subseteq> set (columns t) then Some (OperationalError ''no such column'')
      else None)"
| "prepare t stmt = None"

fun run :: "table \<Rightarrow> statement \<Rightarrow> (error + cursor) \<times> table" where
  "run t (SelectAll tn) =
     (Inr \<lparr>fetchall = map (row_dict t) (rows t), lastrowid = None\<rparr>, t)"
| "run t (SelectById tn p) =
     (Inr \<lparr>fetchall = map (row_dict t) (filter (id_is p) (rows t)), lastrowid = None\<rparr>, t)"
| "run t (SelectIdById tn p) =
     (Inr \<lparr>fetchall = map (\<lambda>row. [(''id'', PInt (fst row))]) (filter (id_is p) (rows t)),
           lastrowid = None\<rparr>, t)"
| "run t (InsertInto tn keys vals) =
     (if next_rowid t > MAX_ROWID then (Inl (OperationalError ''database or disk is full''), t)
      else (Inr \<lparr>fetchall = [], lastrowid = Some (next_rowid t)\<rparr>,
            t\<lparr>rows := rows t @ [(next_rowid t, new_row t keys vals)], seq := next_rowid t\<rparr>))"
| "run t (UpdateById tn keys vals p) =
     (Inr \<lparr>fetchall = [], lastrowid = None\<rparr>,
      t\<lparr>rows := map (\<lambda>row. if id_is p row then (fst row, set_row t keys vals (snd row)) else row)
                  (rows t)\<rparr>)"
| "run t (DeleteById tn p) =
     (Inr \<lparr>fetchall = [], lastrowid = None\<rparr>,
      t\<lparr>rows := filter (\<lambda>row. \<not> id_is p row) (rows t)\<rparr>)"

definition execute :: "database \<Rightarrow> statement \<Rightarrow> (error + cursor) \<times> database" where
  "execute db stmt =
     (case db (table_of stmt) of
        None \<Rightarrow> (Inl (OperationalError ''no such table''), db)
      | Some t \<Rightarrow>
          (case prepare t stmt of
             Some e \<Rightarrow> (Inl e, db)
           | None \<Rightarrow>
               if \<not> list_all bindable (sql_args stmt) then (Inl OverflowError, db)
               else (case run t stmt of
                       (Inl e, t') \<Rightarrow> (Inl e, db)
                     | (Inr c, t') \<Rightarrow> (Inr c, db(table_of stmt \<mapsto> t')))))"

text \<open>
  When the engine accepts an insertion with the given column names and values, and the
  table that the insertion leaves.
\<close>

definition accepts_insert :: "table \<Rightarrow> string list \<Rightarrow> pyval list \<Rightarrow> bool" where
  "accepts_insert t keys vals =
     (keys \<noteq> [] \<and> set keys \<subseteq> set (columns t) \<and> list_all bindable vals
      \<and> next_rowid t \<le> MAX_ROWID)"

definition inserted :: "table \<Rightarrow> string list \<Rightarrow> pyval list \<Rightarrow> table" where
  "inserted t keys vals =
     t\<lparr>rows := rows t @ [(next_rowid t, new_row t keys vals)], seq := next_rowid t\<rparr>"

section \<open>The repository: \<^verbatim>\<open>Manager\<close>\<close>

text \<open>
  A record object is its attribute dictionary. \<^verbatim>\<open>k in s\<close> on two strings is the
  substring test; \<^verbatim>\<open>cut_attrs(obj, keys)\<close> keeps the items whose key is \<^verbatim>\<open>not in keys\<close>,
  and \<^verbatim>\<open>Manager\<close> calls it with the string \<^verbatim>\<open>'id'\<close> for \<^verbatim>\<open>keys\<close>.
\<close>

fun startswith :: "string \<Rightarrow> string \<Rightarrow> bool" where
  "startswith s [] = True"
| "startswith [] (c # p) = False"
| "startswith (x # s) (c # p) = (x = c \<and> startswith s p)"

fun contains :: "string \<Rightarrow> string \<Rightarrow> bool" where
  "contains [] k = (k = [])"
| "contains (x # s) k = (startswith (x # s) k \<or> contains s k)"

definition cut_attrs :: "pydict \<Rightarrow> string \<Rightarrow> pydict" where
  "cut_attrs obj keys = filter (\<lambda>i. \<not> contains keys (fst i)) obj"

text \<open>
  \<^verbatim>\<open>obj.id = value\<close>: an attribute that exists keeps its place in the dictionary, a new
  one goes to the end. \<^verbatim>\<open>hasattr(obj, 'id')\<close> is read on the instance dictionary (the
  model classes declare no class attribute \<^verbatim>\<open>id\<close>: the schema provides the column).
\<close>

definition setattr :: "pydict \<Rightarrow> string \<Rightarrow> pyval \<Rightarrow> pydict" where
  "setattr obj k v =
     (if k \<in> set (map fst obj)
      then map (\<lambda>i. if fst i = k then (k, v) else i) obj
      else obj @ [(k, v)])"

text \<open>\<^verbatim>\<open>create(self, **kwargs)\<close>: \<^verbatim>\<open>obj.__dict__ = kwargs\<close>.\<close>

definition Manager_create :: "pydict \<Rightarrow> pydict" where
  "Manager_create kwargs = kwargs"


definition Manager_has :: "string \<Rightarrow> database \<Rightarrow> pyval \<Rightarrow> (error + bool) \<times> database" where
  "Manager_has tablename db ident =
     (case execute db (SelectIdById tablename ident) of
        (Inl e, db') \<Rightarrow> (Inl e, db')
      | (Inr cursor, db') \<Rightarrow> (Inr (fetchall cursor \<noteq> []), db'))"

text \<open>\<^verbatim>\<open>get\<close>: \<^verbatim>\<open>fetchone()\<close> is the first row, or \<^verbatim>\<open>None\<close>, on which \<^verbatim>\<open>get\<close> raises.\<close>

definition Manager_get :: "string \<Rightarrow> database \<Rightarrow> pyval \<Rightarrow> (error + pydict) \<times> database" where
  "Manager_get tablename db ident =
     (case execute db (SelectById tablename ident) of
        (Inl e, db') \<Rightarrow> (Inl e, db')
      | (Inr cursor, db') \<Rightarrow>
          (case fetchall cursor of
             [] \<Rightarrow> (Inl (NotFound ident), db')
           | row # others \<Rightarrow> (Inr (Manager_create row), db')))"

text \<open>Lines 98 to 104 of \<^verbatim>\<open>save\<close>: the insertion, once the guard has let the object pass.\<close>

definition save_insert :: "string \<Rightarrow> database \<Rightarrow> pydict \<Rightarrow> (error + pydict) \<times> database" where
  "save_insert tablename db obj =
     (let copy = cut_attrs obj ''id'' in
      case execute db (InsertInto tablename (map fst copy) (map snd copy)) of
        (Inl e, db') \<Rightarrow> (Inl e, db')
      | (Inr cursor, db') \<Rightarrow>
          (Inr (setattr obj ''id'' (case lastrowid cursor of Some r \<Rightarrow> PInt r | None \<Rightarrow> PNone)),
           db'))"

definition Manager_save :: "string \<Rightarrow> database \<Rightarrow> pydict \<Rightarrow> (error + pydict) \<times> database" where
  "Manager_save tablename db obj =
     (case map_of obj ''id'' of
        None \<Rightarrow> save_insert tablename db obj
      | Some ident \<Rightarrow>
          (case Manager_has tablename db ident of
             (Inl e, db') \<Rightarrow> (Inl e, db')
           | (Inr True, db') \<Rightarrow> (Inl (DuplicateId ident), db')
           | (Inr False, db') \<Rightarrow> save_insert tablename db' obj))"


definition Manager_delete :: "string \<Rightarrow> database \<Rightarrow> pydict \<Rightarrow> error option \<times> database" where
  "Manager_delete tablename db obj =
     (case map_of obj ''id'' of
        None \<Rightarrow> (Some (AttributeError ''id''), db)
      | Some ident \<Rightarrow>
          (case execute db (DeleteById tablename ident) of
             (Inl e, db') \<Rightarrow> (Some e, db')
           | (Inr cursor, db') \<Rightarrow> (None, db')))"

section \<open>The vocabulary of the specification\<close>

text \<open>
  An Entity Type Descriptor is a name and an ordered list of fields, each with a
  primitive type. The descriptor of a model class holds the attributes that are
  persisted: those of a primitive type whose name carries no internal marker (a
  leading underscore). The schema the specification asks for is written from the
  descriptor, with the table \<open>string \<mapsto> text\<close>, \<open>integer \<mapsto> integer\<close>, \<open>real \<mapsto> real\<close>.
\<close>

datatype primitive = String_t | Integer_t | Real_t

fun primitive_of :: "pyattr \<Rightarrow> primitive option" where
  "primitive_of AStr = Some String_t"
| "primitive_of AInt = Some Integer_t"
| "primitive_of AFloat = Some Real_t"
| "primitive_of a = None"

definition internal :: "string \<Rightarrow> bool" where
  "internal key = (take 1 key = ''_'')"

fun descriptor :: "(string \<times> pyattr) list \<Rightarrow> (string \<times> primitive) list" where
  "descriptor [] = []"
| "descriptor ((key, value) # items) =
     (case primitive_of value of
        None \<Rightarrow> descriptor items
      | Some p \<Rightarrow> if internal key then descriptor items else (key, p) # descriptor items)"

fun sql_type :: "primitive \<Rightarrow> string" where
  "sql_type String_t = ''text''"
| "sql_type Integer_t = ''integer''"
| "sql_type Real_t = ''real''"

fun column_list :: "(string \<times> primitive) list \<Rightarrow> string" where
  "column_list [] = []"
| "column_list [(field, p)] = field @ '' '' @ sql_type p"
| "column_list ((field, p) # more_fields) =
     field @ '' '' @ sql_type p @ '', '' @ column_list more_fields"

definition create_table :: "string \<Rightarrow> (string \<times> primitive) list \<Rightarrow> string" where
  "create_table table_name fs =
     ''create table '' @ table_name @ '' (id integer primary key autoincrement, ''
       @ column_list fs @ '');''"

text \<open>
  A class is well formed when \<^verbatim>\<open>render_schema\<close> reads \<^verbatim>\<open>vars(model)\<close> through without
  an exception: no attribute has the empty name or an unhashable value. Its typed
  attributes are all the attributes of a primitive type, in declaration order, whatever
  their names.
\<close>

definition well_formed :: "(string \<times> pyattr) list \<Rightarrow> bool" where
  "well_formed items = list_all (\<lambda>i. fst i \<noteq> [] \<and> snd i \<noteq> AUnhashable) items"

fun typed_attrs :: "(string \<times> pyattr) list \<Rightarrow> (string \<times> primitive) list" where
  "typed_attrs [] = []"
| "typed_attrs ((key, value) # items) =
     (case primitive_of value of
        None \<Rightarrow> typed_attrs items
      | Some p \<Rightarrow> (key, p) # typed_attrs items)"

text \<open>The clause of one field/value pair: \<open>field comparator value connective\<close>.\<close>

definition clause :: "string \<Rightarrow> string \<Rightarrow> string \<times> pyval \<Rightarrow> string list" where
  "clause comparator boolean kv = [fst kv, comparator, str (snd kv), boolean]"




text \<open>
  The invariant of the engine's tables: the row ids are positive, pairwise distinct and
  not above the counter.
\<close>

definition table_ok :: "table \<Rightarrow> bool" where
  "table_ok t =
     (0 \<le> seq t \<and> distinct (map fst (rows t))
      \<and> list_all (\<lambda>row. 0 < fst row \<and> fst row \<le> seq t) (rows t))"

section \<open>Example classes, records and tables\<close>

text \<open>
  \<^verbatim>\<open>class Person(Model): name = str; age = int\<close>: \<^verbatim>\<open>vars(Person)\<close> holds the two
  fields between the entries that Python adds to every class.
\<close>

definition Person :: model where
  "Person = \<lparr>name = ''Person'',
             attrs = [(''__module__'', AOther), (''name'', AStr), (''age'', AInt),
                      (''__doc__'', AOther)]\<rparr>"

definition Person_table :: table where
  "Person_table = \<lparr>columns = [''name'', ''age''], rows = [(1, [PStr ''ann'', PInt 30])], seq = 1\<rparr>"

definition Person_db :: database where
  "Person_db = Map.empty(''Person'' \<mapsto> Person_table)"

text \<open>
  \<^verbatim>\<open>class Node(Model): label = str; d = int\<close>, its empty table, and a record of it.
\<close>

definition Node :: model where
  "Node = \<lparr>name = ''Node'',
           attrs = [(''__module__'', AOther), (''label'', AStr), (''d'', AInt),
                    (''__doc__'', AOther)]\<rparr>"

definition Node_table :: table where
  "Node_table = \<lparr>columns = [''label'', ''d''], rows = [], seq = 0\<rparr>"

definition Node_db :: database where
  "Node_db = Map.empty(''Node'' \<mapsto> Node_table)"

definition Node_obj :: pydict where
  "Node_obj = [(''label'', PStr ''a''), (''d'', PInt 5)]"

text \<open>
  A second record of \<^verbatim>\<open>Node\<close>, with an id that no row has:
  \<^verbatim>\<open>Node(label='a', d=5)\<close> after \<^verbatim>\<open>obj.id = 7\<close>.
\<close>

definition Node_obj_7 :: pydict where
  "Node_obj_7 = [(''label'', PStr ''a''), (''d'', PInt 5), (''id'', PInt 7)]"

text \<open>
  \<^verbatim>\<open>class Item(Model): name = str; _hidden = int\<close>, with a field that carries the
  internal marker, and \<^verbatim>\<open>class Bag(Model): name = str; tags = []\<close>, with an attribute
  that is not of a primitive type.
\<close>

definition Item :: model where
  "Item = \<lparr>name = ''Item'',
           attrs = [(''__module__'', AOther), (''name'', AStr), (''_hidden'', AInt),
                    (''__doc__'', AOther)]\<rparr>"

definition Bag :: model where
  "Bag = \<lparr>name = ''Bag'',
          attrs = [(''__module__'', AOther), (''name'', AStr), (''tags'', AUnhashable),
                   (''__doc__'', AOther)]\<rparr>"


definition Person_obj_1 :: pydict where
  "Person_obj_1 = [(''name'', PStr ''bob''), (''age'', PInt 41), (''id'', PInt 1)]"

section \<open>Properties of the schema synthesizer\<close>

text \<open>
  What \<^verbatim>\<open>render_schema\<close> emits on a well-formed class: a column for each typed
  attribute, in declaration order, with the types \<open>string \<mapsto> text\<close>,
  \<open>integer \<mapsto> integer\<close>, \<open>real \<mapsto> real\<close>.
\<close>

lemma cols_typed_attrs:
  "well_formed items \<Longrightarrow>
     cols items = Inr (map (\<lambda>f. fst f @ '' '' @ sql_type (snd f)) (typed_attrs items))"
proof (induction items)
  case Nil
  then show ?case by simp
next
  case (Cons i items)
  obtain key v where i: "i = (key, v)" by (cases i)
  from Cons.prems have wf: "well_formed items" and k: "key \<noteq> []" and u: "v \<noteq> AUnhashable"
    by (simp_all add: well_formed_def i)
  obtain c cs where kc: "key = c # cs" using k by (cases key) auto
  show ?case using Cons.IH [OF wf] u
    by (cases v) (auto simp: i kc iscol_def colrender_def)
qed

lemma join_column_list:
  "join '', '' (map (\<lambda>f. fst f @ '' '' @ sql_type (snd f)) fs) = column_list fs"
  by (induction fs rule: column_list.induct) simp_all

lemma render_schema_typed_attrs:
  assumes "well_formed (attrs m)"
  shows "render_schema m = Inr (create_table (name m) (typed_attrs (attrs m)))"
  using cols_typed_attrs [OF assms]
  by (simp add: render_schema_def create_table_def join_column_list [simplified])

text \<open>
  The typed attributes are the descriptor's fields when no attribute of a primitive type
  carries the internal marker; on such a class \<^verbatim>\<open>render_schema\<close> emits the statement that
  the specification writes from the descriptor. \<^verbatim>\<open>Person\<close> is such a class.
\<close>

lemma typed_attrs_descriptor:
  "list_all (\<lambda>i. internal (fst i) \<longrightarrow> primitive_of (snd i) = None) items \<Longrightarrow>
     typed_attrs items = descriptor items"
  by (induction items) (auto split: option.splits)

lemma render_schema_descriptor:
  assumes "well_formed (attrs m)"
    and "list_all (\<lambda>i. internal (fst i) \<longrightarrow> primitive_of (snd i) = None) (attrs m)"
  shows "render_schema m = Inr (create_table (name m) (descriptor (attrs m)))"
  using render_schema_typed_attrs [OF assms(1)] typed_attrs_descriptor [OF assms(2)] by simp

lemma render_schema_Person:
  "render_schema Person =
     Inr ''create table Person (id integer primary key autoincrement, name text, age integer);''"
  by (simp add: render_schema_def Person_def iscol_def colrender_def)

text \<open>An attribute with an unhashable value makes \<^verbatim>\<open>render_schema\<close> raise \<^verbatim>\<open>TypeError\<close>.\<close>

lemma render_schema_Bag: "render_schema Bag = Inl TypeError"
  by (simp add: render_schema_def Bag_def iscol_def)

text \<open>
  Claim C3 says that for every entity type descriptor the schema synthesizer emits
  \<^verbatim>\<open>create table <Name> (id integer primary key autoincrement, <field1> <type1>, ...);\<close>
  with the descriptor's fields as columns, in declaration order, under the mapping
  \<open>string \<mapsto> text\<close>, \<open>integer \<mapsto> integer\<close>, \<open>real \<mapsto> real\<close>. For \<^verbatim>\<open>Person\<close> the statement
  is the one the claim gives (\<open>render_schema_Person\<close>). For \<^verbatim>\<open>Item\<close>, whose descriptor
  holds the field \<^verbatim>\<open>name\<close> alone, \<^verbatim>\<open>render_schema\<close> emits the column \<^verbatim>\<open>_hidden integer\<close>
  too: the test \<^verbatim>\<open>key[0] is not '_'\<close>, meant to leave out the names with the internal
  marker, compares identities and leaves out none.
\<close>

theorem render_schema_keeps_internal_field:
  "descriptor (attrs Item) = [(''name'', String_t)]
   \<and> create_table (name Item) (descriptor (attrs Item)) =
       ''create table Item (id integer primary key autoincrement, name text);''
   \<and> render_schema Item =
       Inr ''create table Item (id integer primary key autoincrement, name text, _hidden integer);''"
  by (simp add: render_schema_def create_table_def Item_def iscol_def colrender_def internal_def)

section \<open>Properties of the query builder\<close>

lemma str_int_30: "str_int 30 = ''30''"
  by (simp add: str_int_def str_nat.simps digit_char_def)

lemma str_int_31: "str_int 31 = ''31''"
  by (simp add: str_int_def str_nat.simps digit_char_def)

lemma str_int_1: "str_int 1 = ''1''"
  by (simp add: str_int_def str_nat.simps digit_char_def)

lemma Person_valid:
  "valid_keyvals (attrs Person) = Inr [''__module__'', ''name'', ''age'', ''__doc__'']"
  by (simp add: Person_def)

lemma filter_loop_all_valid:
  "set (map fst kwargs) \<subseteq> set valid \<Longrightarrow>
     filter_loop valid c b kwargs tokens = (None, tokens @ concat (map (clause c b) kwargs))"
  by (induction kwargs arbitrary: tokens) (auto simp: clause_def)

lemma filter_loop_first_invalid:
  "set (map fst pre) \<subseteq> set valid \<Longrightarrow> k \<notin> set valid \<Longrightarrow>
     filter_loop valid c b (pre @ (k, v) # post) tokens =
       (Some (InvalidColumn k), tokens @ concat (map (clause c b) pre))"
  by (induction pre arbitrary: tokens) (auto simp: clause_def)

lemma concat_clause_nonempty: "kwargs \<noteq> [] \<Longrightarrow> concat (map (clause c b) kwargs) \<noteq> []"
  by (cases kwargs) (auto simp: clause_def)

text \<open>
  What \<^verbatim>\<open>filter\<close> does on its first invalid field: it raises the error of that field,
  and the buffer holds the clauses of the valid fields before it, the last connective
  included.
\<close>

lemma filter_first_invalid:
  assumes "valid_keyvals (attrs (qb_model q)) = Inr valid"
    and "set (map fst pre) \<subseteq> set valid" and "k \<notin> set valid"
  shows "QueryBuilder_filter c b (pre @ (k, v) # post) q =
           (Some (InvalidColumn k),
            q\<lparr>query_tokens := query_tokens q @ concat (map (clause c b) pre)\<rparr>)"
  using assms by (simp add: QueryBuilder_filter_def filter_loop_first_invalid)

text \<open>
  The identity test of \<^verbatim>\<open>valid_keyvals\<close> lets the names with the internal marker through
  as well: \<^verbatim>\<open>filter(_hidden=1)\<close> on \<^verbatim>\<open>Item\<close> returns normally.
\<close>

lemma filter_accepts_internal_field:
  "QueryBuilder_filter EQUAL AND [(''_hidden'', PInt 1)] (QueryBuilder_init Item) =
     (None, \<lparr>qb_model = Item, query_tokens = [''_hidden'', ''='', ''1'']\<rparr>)"
  by (simp add: QueryBuilder_filter_def QueryBuilder_init_def Item_def str_int_1
      EQUAL_def AND_def)

text \<open>
  Claim C4 says that on every path the values supplied by the user reach \<^verbatim>\<open>execute\<close>
  as bound parameters only, so that two runs which differ only in a filter value hand
  the same SQL text to \<^verbatim>\<open>execute\<close>. The statements of \<^verbatim>\<open>Manager\<close> are so: their text
  does not depend on the values. The query builder writes \<^verbatim>\<open>str(value)\<close> into the token
  buffer and \<^verbatim>\<open>delete\<close> joins the buffer into the text: the filters \<^verbatim>\<open>age=30\<close> and
  \<^verbatim>\<open>age=31\<close> give two different texts, both without parameters.
\<close>

lemma manager_sql_text_without_values:
  "sql_text (InsertInto tn keys vals) = sql_text (InsertInto tn keys vals')"
  "sql_text (UpdateById tn keys vals p) = sql_text (UpdateById tn keys vals' p')"
  "sql_text (SelectById tn p) = sql_text (SelectById tn p')"
  "sql_text (SelectIdById tn p) = sql_text (SelectIdById tn p')"
  "sql_text (DeleteById tn p) = sql_text (DeleteById tn p')"
  by simp_all

theorem delete_text_depends_on_value:
  "QueryBuilder_delete
     (snd (QueryBuilder_filter EQUAL AND [(''age'', PInt 30)] (QueryBuilder_init Person))) =
     (''delete from Person where age = 30'', [])
   \<and> QueryBuilder_delete
     (snd (QueryBuilder_filter EQUAL AND [(''age'', PInt 31)] (QueryBuilder_init Person))) =
     (''delete from Person where age = 31'', [])"
  by (simp add: QueryBuilder_delete_def QueryBuilder_filter_def QueryBuilder_init_def Person_valid
      str_int_30 str_int_31 EQUAL_def AND_def Person_def)

text \<open>
  Claim C5 says that \<^verbatim>\<open>filter()\<close> fails on a buffer that holds a limit token, and that
  a limit token is always the last token of the buffer. Neither holds: after
  \<^verbatim>\<open>limit(1)\<close>, \<^verbatim>\<open>filter(age=30)\<close> returns normally and the buffer is
  \<^verbatim>\<open>limit 1 age = 30\<close>.
\<close>

theorem filter_after_limit_counterexample:
  "LIMIT \<in> set (query_tokens (QueryBuilder_limit (PInt 1) (QueryBuilder_init Person)))
   \<and> QueryBuilder_filter EQUAL AND [(''age'', PInt 30)]
       (QueryBuilder_limit (PInt 1) (QueryBuilder_init Person)) =
       (None, \<lparr>qb_model = Person, query_tokens = [''limit'', ''1'', ''age'', ''='', ''30'']\<rparr>)"
  by (simp add: QueryBuilder_filter_def QueryBuilder_limit_def QueryBuilder_init_def Person_valid
      str_int_30 str_int_1 EQUAL_def AND_def LIMIT_def)

text \<open>
  Claim C5, amended. \<^verbatim>\<open>limit(n)\<close> appends the two tokens \<^verbatim>\<open>limit\<close> and \<^verbatim>\<open>str(n)\<close> to the
  end of the buffer. \<^verbatim>\<open>filter()\<close> with valid fields on a buffer that holds a limit token
  does not fail: it appends its clauses after the tokens that are there and drops the
  last token of the buffer.
\<close>

theorem filter_accepts_limited_buffer:
  assumes "LIMIT \<in> set (query_tokens q)"
    and "valid_keyvals (attrs (qb_model q)) = Inr valid"
    and "set (map fst kwargs) \<subseteq> set valid"
  shows "QueryBuilder_filter c b kwargs q =
           (None, q\<lparr>query_tokens := butlast (query_tokens q @ concat (map (clause c b) kwargs))\<rparr>)
       \<and> query_tokens (QueryBuilder_limit n q) = query_tokens q @ [LIMIT, str n]"
proof -
  from assms(1) have "query_tokens q \<noteq> []" by auto
  then show ?thesis using assms(2,3)
    by (simp add: QueryBuilder_filter_def filter_loop_all_valid QueryBuilder_limit_def)
qed

theorem filter_accepts_limited_buffer_witness:
  "LIMIT \<in> set (query_tokens (QueryBuilder_limit (PInt 1) (QueryBuilder_init Person)))
   \<and> valid_keyvals (attrs (qb_model (QueryBuilder_limit (PInt 1) (QueryBuilder_init Person)))) =
       Inr [''__module__'', ''name'', ''age'', ''__doc__'']
   \<and> set (map fst [(''age'', PInt 30)]) \<subseteq> set [''__module__'', ''name'', ''age'', ''__doc__'']
   \<and> fst (QueryBuilder_filter EQUAL AND [(''age'', PInt 30)]
            (QueryBuilder_limit (PInt 1) (QueryBuilder_init Person))) = None"
proof -
  let ?q = "QueryBuilder_limit (PInt 1) (QueryBuilder_init Person)"
  have l: "LIMIT \<in> set (query_tokens ?q)" by (simp add: QueryBuilder_limit_def)
  have v: "valid_keyvals (attrs (qb_model ?q)) = Inr [''__module__'', ''name'', ''age'', ''__doc__'']"
    by (simp add: QueryBuilder_limit_def QueryBuilder_init_def Person_valid)
  have s: "set (map fst [(''age'', PInt 30)]) \<subseteq> set [''__module__'', ''name'', ''age'', ''__doc__'']"
    by simp
  show ?thesis using l v s filter_accepts_limited_buffer [OF l v s, of EQUAL AND "PInt 1"]
    by simp
qed

text \<open>
  Claim C6 says that \<^verbatim>\<open>QueryBuilder.update\<close> validates each field as \<^verbatim>\<open>filter()\<close> does
  and then assembles and executes an \<^verbatim>\<open>update\<close> statement. On the undeclared field
  \<^verbatim>\<open>bogus\<close>, \<^verbatim>\<open>filter\<close> raises the invalid column error and \<^verbatim>\<open>update\<close> returns normally,
  without a call of \<^verbatim>\<open>execute\<close>.
\<close>

theorem update_unvalidated_counterexample:
  "QueryBuilder_filter EQUAL AND [(''bogus'', PInt 1)] (QueryBuilder_init Person) =
     (Some (InvalidColumn ''bogus''), QueryBuilder_init Person)
   \<and> QueryBuilder_update [(''bogus'', PInt 1)] (QueryBuilder_init Person) =
     (None, [], QueryBuilder_init Person)"
  by (simp add: QueryBuilder_filter_def QueryBuilder_update_def QueryBuilder_init_def Person_valid)

text \<open>
  Claim C6, amended. \<^verbatim>\<open>QueryBuilder.update\<close> accepts any field assignments and does
  nothing: it validates no field and raises no error, it executes no statement, and it
  leaves the token buffer as it is.
\<close>

theorem update_does_nothing:
  "fst (QueryBuilder_update kwargs q) = None
   \<and> fst (snd (QueryBuilder_update kwargs q)) = []
   \<and> snd (snd (QueryBuilder_update kwargs q)) = q"
  by (simp add: QueryBuilder_update_def)

text \<open>
  Claim C7 says that \<^verbatim>\<open>filter()\<close> appends the clauses of several valid fields sorted by
  field name. \<^verbatim>\<open>filter(name='bob', age=30)\<close> appends the clause of \<^verbatim>\<open>name\<close> before the
  clause of \<^verbatim>\<open>age\<close>: the buffer is not the one that the sorted order gives.
\<close>

theorem filter_sorted_counterexample:
  "QueryBuilder_filter EQUAL AND [(''name'', PStr ''bob''), (''age'', PInt 30)]
     (QueryBuilder_init Person) =
     (None, \<lparr>qb_model = Person,
             query_tokens = [''name'', ''='', ''bob'', ''AND'', ''age'', ''='', ''30'']\<rparr>)
   \<and> [''name'', ''='', ''bob'', ''AND'', ''age'', ''='', ''30'']
       \<noteq> [''age'', ''='', ''30'', ''AND'', ''name'', ''='', ''bob'']"
  by (simp add: QueryBuilder_filter_def QueryBuilder_init_def Person_valid str_int_30
      EQUAL_def AND_def)

text \<open>
  Claim C7, amended. For every call of \<^verbatim>\<open>filter()\<close> with one or more field/value pairs,
  all valid, the clauses \<open>field comparator value connective\<close> are appended to the token
  buffer in the order in which the pairs are supplied, and only the last token of the
  resulting buffer, the trailing connective, is dropped: the connectives between the
  clauses stay.
\<close>

theorem filter_appends_in_call_order:
  assumes "valid_keyvals (attrs (qb_model q)) = Inr valid"
    and "kwargs \<noteq> []"
    and "set (map fst kwargs) \<subseteq> set valid"
  shows "QueryBuilder_filter c b kwargs q =
           (None, q\<lparr>query_tokens := query_tokens q @ butlast (concat (map (clause c b) kwargs))\<rparr>)"
proof -
  have ne: "concat (map (clause c b) kwargs) \<noteq> []"
    by (rule concat_clause_nonempty [OF assms(2)])
  then have "butlast (query_tokens q @ concat (map (clause c b) kwargs)) =
               query_tokens q @ butlast (concat (map (clause c b) kwargs))"
    by (simp only: butlast_append if_False)
  with ne show ?thesis
    using assms(1,3)
    by (simp add: QueryBuilder_filter_def filter_loop_all_valid del: concat_eq_Nil_conv)
qed

theorem filter_appends_in_call_order_witness:
  "valid_keyvals (attrs (qb_model (QueryBuilder_init Person))) =
     Inr [''__module__'', ''name'', ''age'', ''__doc__'']
   \<and> [(''name'', PStr ''bob''), (''age'', PInt 30)] \<noteq> []
   \<and> set (map fst [(''name'', PStr ''bob''), (''age'', PInt 30)])
       \<subseteq> set [''__module__'', ''name'', ''age'', ''__doc__'']
   \<and> QueryBuilder_filter EQUAL OR [(''name'', PStr ''bob''), (''age'', PInt 30)]
       (QueryBuilder_init Person) =
       (None, \<lparr>qb_model = Person,
               query_tokens = [''name'', ''='', ''bob'', ''OR'', ''age'', ''='', ''30'']\<rparr>)"
proof -
  have v: "valid_keyvals (attrs (qb_model (QueryBuilder_init Person))) =
             Inr [''__module__'', ''name'', ''age'', ''__doc__'']"
    by (simp add: QueryBuilder_init_def Person_valid)
  have n: "[(''name'', PStr ''bob''), (''age'', PInt 30)] \<noteq> []" by simp
  have s: "set (map fst [(''name'', PStr ''bob''), (''age'', PInt 30)])
             \<subseteq> set [''__module__'', ''name'', ''age'', ''__doc__'']"
    by simp
  show ?thesis
    using v n s filter_appends_in_call_order [OF v n s, of EQUAL OR]
    by (simp add: clause_def str_int_30 QueryBuilder_init_def EQUAL_def OR_def)
qed

text \<open>
  Claim C8 says that \<^verbatim>\<open>filter()\<close> with an undeclared or internal field among its
  assignments fails with the invalid column error and leaves the token buffer exactly
  as it was. On \<^verbatim>\<open>filter(age=30, bogus=1)\<close> and an empty buffer, the call fails with
  that error, and the buffer holds the clause of \<^verbatim>\<open>age\<close> with its connective.
\<close>

theorem filter_invalid_after_valid:
  "QueryBuilder_filter EQUAL AND [(''age'', PInt 30), (''bogus'', PInt 1)]
     (QueryBuilder_init Person) =
     (Some (InvalidColumn ''bogus''),
      \<lparr>qb_model = Person, query_tokens = [''age'', ''='', ''30'', ''AND'']\<rparr>)
   \<and> query_tokens (QueryBuilder_init Person) = []"
  by (simp add: QueryBuilder_filter_def QueryBuilder_init_def Person_valid str_int_30
      EQUAL_def AND_def)

section \<open>Properties of the repository\<close>

lemma contains_id: "contains ''id'' k = (k = [] \<or> k = ''i'' \<or> k = ''d'' \<or> k = ''id'')"
proof (cases k)
  case Nil
  then show ?thesis by simp
next
  case (Cons a k1)
  show ?thesis
  proof (cases k1)
    case Nil
    then show ?thesis using Cons by auto
  next
    case (Cons b k2)
    then show ?thesis using \<open>k = a # k1\<close> by (cases k2) auto
  qed
qed

lemma cut_attrs_keys:
  "fst ` set (cut_attrs obj ''id'') = fst ` set obj - {[], ''i'', ''d'', ''id''}"
  unfolding cut_attrs_def by (auto simp: contains_id simp del: contains.simps)

lemma fold_max_ge: "a \<le> fold max xs (a::int)"
  by (induction xs arbitrary: a) (auto intro: order_trans [OF max.cobounded2])

lemma fold_max_mem: "x \<in> set xs \<Longrightarrow> x \<le> fold max xs (a::int)"
proof (induction xs arbitrary: a)
  case Nil
  then show ?case by simp
next
  case (Cons y xs)
  then show ?case
    using fold_max_ge [of "max y a" xs] by auto
qed

lemma next_rowid_fresh: "row \<in> set (rows t) \<Longrightarrow> fst row < next_rowid t"
  using fold_max_mem [of "fst row" "map fst (rows t)" "seq t"] by (simp add: next_rowid_def)

lemma next_rowid_seq: "seq t < next_rowid t"
  using fold_max_ge [of "seq t" "map fst (rows t)"] by (simp add: next_rowid_def)

lemma map_of_replace:
  "map_of (map (\<lambda>i. if fst i = k then (k, v) else i) obj) k' =
     (if k' = k then (if k \<in> fst ` set obj then Some v else None) else map_of obj k')"
  by (induction obj) (auto simp: rev_image_eqI)

lemma map_of_append_new:
  "k \<notin> fst ` set obj \<Longrightarrow>
     map_of (obj @ [(k, v)]) k' = (if k' = k then Some v else map_of obj k')"
  by (induction obj) auto

lemma setattr_lookup: "map_of (setattr obj k v) k = Some v"
  by (simp add: setattr_def map_of_replace map_of_append_new del: map_of_append)


lemma Manager_has_eq:
  "db tn = Some t \<Longrightarrow> bindable (PInt i) \<Longrightarrow>
     Manager_has tn db (PInt i) = (Inr (i \<in> fst ` set (rows t)), db)"
  by (auto simp: Manager_has_def execute_def filter_empty_conv fun_upd_idem id_is_def image_iff)


lemma execute_insert_ok:
  "db tn = Some t \<Longrightarrow> accepts_insert t keys vals \<Longrightarrow>
     execute db (InsertInto tn keys vals) =
       (Inr \<lparr>fetchall = [], lastrowid = Some (next_rowid t)\<rparr>, db(tn \<mapsto> inserted t keys vals))"
  by (simp add: execute_def accepts_insert_def inserted_def)

lemma execute_insert_fails:
  "db tn = Some t \<Longrightarrow> \<not> accepts_insert t keys vals \<Longrightarrow>
     \<exists>e. fst (execute db (InsertInto tn keys vals)) = Inl e"
  by (auto simp: execute_def accepts_insert_def)

lemma save_insert_ok:
  "db tn = Some t \<Longrightarrow>
   accepts_insert t (map fst (cut_attrs obj ''id'')) (map snd (cut_attrs obj ''id'')) \<Longrightarrow>
     save_insert tn db obj =
       (Inr (setattr obj ''id'' (PInt (next_rowid t))),
        db(tn \<mapsto> inserted t (map fst (cut_attrs obj ''id'')) (map snd (cut_attrs obj ''id''))))"
  by (simp add: save_insert_def Let_def execute_insert_ok)

lemma save_insert_fails:
  assumes "db tn = Some t"
    and "\<not> accepts_insert t (map fst (cut_attrs obj ''id'')) (map snd (cut_attrs obj ''id''))"
  shows "\<exists>e. fst (save_insert tn db obj) = Inl e"
proof -
  from execute_insert_fails [where db = db and tn = tn and t = t, OF assms] obtain e where
    "fst (execute db (InsertInto tn (map fst (cut_attrs obj ''id'')) (map snd (cut_attrs obj ''id'')))) = Inl e"
    by blast
  then show ?thesis by (auto simp: save_insert_def Let_def split: prod.splits sum.splits)
qed

text \<open>
  Claim C2. For every record whose \<^verbatim>\<open>id\<close> attribute is set and is the id of a row of
  the table, \<^verbatim>\<open>Manager.save\<close> fails with the duplicate id error, and the database it
  leaves is the database it was given: no row is inserted or modified.
\<close>

theorem save_duplicate_id:
  assumes "map_of obj ''id'' = Some v"
    and "db tn = Some t"
    and "bindable v"
    and "\<exists>row \<in> set (rows t). id_is v row"
  shows "Manager_save tn db obj = (Inl (DuplicateId v), db)"
proof -
  from assms(4) obtain row where row: "row \<in> set (rows t)" and v: "v = PInt (fst row)"
    by (auto simp: id_is_def)
  from assms(3) v have "bindable (PInt (fst row))" by simp
  from Manager_has_eq [where db = db and tn = tn and t = t, OF assms(2) this] row
  have "Manager_has tn db v = (Inr True, db)" by (simp add: v)
  with assms(1) show ?thesis by (simp add: Manager_save_def)
qed

theorem save_duplicate_id_witness:
  "map_of Person_obj_1 ''id'' = Some (PInt 1)
   \<and> Person_db ''Person'' = Some Person_table
   \<and> bindable (PInt 1)
   \<and> id_is (PInt 1) (1, [PStr ''ann'', PInt 30])
   \<and> (1, [PStr ''ann'', PInt 30]) \<in> set (rows Person_table)
   \<and> Manager_save ''Person'' Person_db Person_obj_1 = (Inl (DuplicateId (PInt 1)), Person_db)"
proof -
  have a: "map_of Person_obj_1 ''id'' = Some (PInt 1)" by (simp add: Person_obj_1_def)
  have b: "Person_db ''Person'' = Some Person_table" by (simp add: Person_db_def)
  have c: "bindable (PInt 1)" by (simp add: MAX_ROWID_def)
  have d: "\<exists>row \<in> set (rows Person_table). id_is (PInt 1) row"
    by (simp add: Person_table_def id_is_def)
  show ?thesis
    using a b c
      save_duplicate_id [where obj = Person_obj_1 and db = Person_db and t = Person_table, OF a b c d]
    by (simp add: Person_table_def id_is_def)
qed

text \<open>
  Claim C10 says that \<^verbatim>\<open>save\<close> on a record whose id is the id of no row does not insert
  that id: it inserts the non-id fields only, lets the storage generate a fresh id and
  overwrites the record's id with it. On \<^verbatim>\<open>Node(label='a', d=5)\<close> with the id 7 and
  the empty table: \<^verbatim>\<open>has(7)\<close> is false, the id 7 is not inserted, the storage generates
  the id 1 and the record's id becomes 1, as the claim says; but of the non-id fields
  only \<^verbatim>\<open>label\<close> is inserted. The field \<^verbatim>\<open>d\<close> is cut with the id, by the substring test
  of \<^verbatim>\<open>cut_attrs\<close>, and the row is stored with \<^verbatim>\<open>d = NULL\<close>.
\<close>

theorem save_with_unused_id_drops_field_d:
  "map_of Node_obj_7 ''id'' = Some (PInt 7)
   \<and> Manager_has ''Node'' Node_db (PInt 7) = (Inr False, Node_db)
   \<and> cut_attrs Node_obj_7 ''id'' = [(''label'', PStr ''a'')]
   \<and> Manager_save ''Node'' Node_db Node_obj_7 =
       (Inr [(''label'', PStr ''a''), (''d'', PInt 5), (''id'', PInt 1)],
        Node_db(''Node'' \<mapsto> \<lparr>columns = [''label'', ''d''], rows = [(1, [PStr ''a'', PNone])], seq = 1\<rparr>))"
proof -
  have 1: "map_of Node_obj_7 ''id'' = Some (PInt 7)" by (simp add: Node_obj_7_def)
  have t: "Node_db ''Node'' = Some Node_table" by (simp add: Node_db_def)
  have "bindable (PInt 7)" by (simp add: MAX_ROWID_def)
  from Manager_has_eq [where db = Node_db and tn = "''Node''" and t = Node_table, OF t this]
  have 2: "Manager_has ''Node'' Node_db (PInt 7) = (Inr False, Node_db)"
    by (simp add: Node_table_def)
  have 3: "cut_attrs Node_obj_7 ''id'' = [(''label'', PStr ''a'')]"
    by (simp add: cut_attrs_def Node_obj_7_def)
  have n: "next_rowid Node_table = 1" by (simp add: next_rowid_def Node_table_def)
  have acc: "accepts_insert Node_table [''label''] [PStr ''a'']"
    by (simp add: accepts_insert_def n MAX_ROWID_def) (simp add: Node_table_def)
  have s: "save_insert ''Node'' Node_db Node_obj_7 =
          (Inr (setattr Node_obj_7 ''id'' (PInt 1)),
           Node_db(''Node'' \<mapsto> inserted Node_table [''label''] [PStr ''a'']))"
    using save_insert_ok [where db = Node_db and tn = "''Node''" and t = Node_table
        and obj = Node_obj_7] acc t
    by (simp add: 3 n)
  have i: "inserted Node_table [''label''] [PStr ''a''] =
             \<lparr>columns = [''label'', ''d''], rows = [(1, [PStr ''a'', PNone])], seq = 1\<rparr>"
    by (simp add: inserted_def new_row_def n) (simp add: Node_table_def)
  have 4: "Manager_save ''Node'' Node_db Node_obj_7 =
       (Inr [(''label'', PStr ''a''), (''d'', PInt 5), (''id'', PInt 1)],
        Node_db(''Node'' \<mapsto> \<lparr>columns = [''label'', ''d''], rows = [(1, [PStr ''a'', PNone])], seq = 1\<rparr>))"
    using s 1 2 by (simp add: Manager_save_def i) (simp add: setattr_def Node_obj_7_def)
  from 1 2 3 4 show ?thesis by blast
qed

lemma table_ok_inserted:
  assumes "table_ok t"
  shows "table_ok (inserted t keys vals)"
proof -
  from assms have s: "0 \<le> seq t" and d: "distinct (map fst (rows t))"
    and b: "\<forall>row \<in> set (rows t). 0 < fst row \<and> fst row \<le> seq t"
    unfolding table_ok_def list_all_iff by blast+
  have n: "seq t < next_rowid t" by (rule next_rowid_seq)
  have f: "next_rowid t \<notin> fst ` set (rows t)"
    using next_rowid_fresh [of _ t] by fastforce
  show ?thesis
    using s d b n f by (fastforce simp: table_ok_def inserted_def list_all_iff)
qed

lemma save_new_record:
  assumes "map_of obj ''id'' = None" and "db tn = Some t"
    and "Manager_save tn db obj = (Inr obj', db')"
  shows "accepts_insert t (map fst (cut_attrs obj ''id'')) (map snd (cut_attrs obj ''id''))
       \<and> obj' = setattr obj ''id'' (PInt (next_rowid t))
       \<and> db' = db(tn \<mapsto> inserted t (map fst (cut_attrs obj ''id'')) (map snd (cut_attrs obj ''id'')))"
proof -
  let ?keys = "map fst (cut_attrs obj ''id'')" and ?vals = "map snd (cut_attrs obj ''id'')"
  from assms(1,3) have s: "save_insert tn db obj = (Inr obj', db')"
    by (simp add: Manager_save_def)
  have acc: "accepts_insert t ?keys ?vals"
  proof (rule ccontr)
    assume "\<not> accepts_insert t ?keys ?vals"
    from save_insert_fails [where db = db and tn = tn and t = t and obj = obj, OF assms(2) this] s
    show False by auto
  qed
  from save_insert_ok [where db = db and tn = tn and t = t and obj = obj, OF assms(2) acc] s acc
  show ?thesis by simp
qed

text \<open>
  The id that \<^verbatim>\<open>save\<close> assigns to a record without one is positive, greater than the
  counter of the table, which bounds every id generated before, and greater than the id
  of every row; the table keeps its invariant.
\<close>

lemma save_assigns_fresh_positive_id:
  assumes "map_of obj ''id'' = None" and "db tn = Some t" and "table_ok t"
    and "Manager_save tn db obj = (Inr obj', db')"
  shows "map_of obj' ''id'' = Some (PInt (next_rowid t))
       \<and> 0 < next_rowid t \<and> seq t < next_rowid t
       \<and> (\<forall>row \<in> set (rows t). fst row < next_rowid t)
       \<and> (\<exists>t'. db' tn = Some t' \<and> table_ok t' \<and> seq t' = next_rowid t)"
proof -
  from save_new_record [OF assms(1) _ assms(4), where t = t] assms(2)
  have o: "obj' = setattr obj ''id'' (PInt (next_rowid t))"
    and d: "db' = db(tn \<mapsto> inserted t (map fst (cut_attrs obj ''id'')) (map snd (cut_attrs obj ''id'')))"
    by blast+
  from assms(3) have "0 \<le> seq t" by (simp add: table_ok_def)
  then have p: "0 < next_rowid t" using next_rowid_seq [of t] by linarith
  show ?thesis
    using o d p next_rowid_seq [of t] next_rowid_fresh [of _ t] table_ok_inserted [OF assms(3)]
    by (simp add: setattr_lookup) (simp add: inserted_def)
qed



















text \<open>
  Claim C1 says that \<^verbatim>\<open>save\<close> on a record without an id assigns a fresh positive id,
  and that \<^verbatim>\<open>get\<close> with that id returns a record whose non-id fields equal those of the
  saved record. The id is as the claim says (\<open>save_assigns_fresh_positive_id\<close> above).
  The fields are not: \<^verbatim>\<open>cut_attrs(obj, 'id')\<close> tests \<^verbatim>\<open>key not in 'id'\<close> on strings, so
  it drops the fields named \<^verbatim>\<open>i\<close> and \<^verbatim>\<open>d\<close> with the id. The record
  \<^verbatim>\<open>Node(label='a', d=5)\<close> is stored without its \<^verbatim>\<open>d\<close>, and \<^verbatim>\<open>get(1)\<close> returns
  \<^verbatim>\<open>d = None\<close>.
\<close>

theorem save_drops_field_named_d:
  "map_of Node_obj ''id'' = None
   \<and> Manager_save ''Node'' Node_db Node_obj =
       (Inr [(''label'', PStr ''a''), (''d'', PInt 5), (''id'', PInt 1)],
        Node_db(''Node'' \<mapsto> \<lparr>columns = [''label'', ''d''], rows = [(1, [PStr ''a'', PNone])], seq = 1\<rparr>))
   \<and> Manager_get ''Node''
        (Node_db(''Node'' \<mapsto> \<lparr>columns = [''label'', ''d''], rows = [(1, [PStr ''a'', PNone])], seq = 1\<rparr>))
        (PInt 1) =
       (Inr [(''id'', PInt 1), (''label'', PStr ''a''), (''d'', PNone)],
        Node_db(''Node'' \<mapsto> \<lparr>columns = [''label'', ''d''], rows = [(1, [PStr ''a'', PNone])], seq = 1\<rparr>))"
proof -
  have cut: "cut_attrs Node_obj ''id'' = [(''label'', PStr ''a'')]"
    by (simp add: cut_attrs_def Node_obj_def)
  have n: "next_rowid Node_table = 1" by (simp add: next_rowid_def Node_table_def)
  have acc: "accepts_insert Node_table [''label''] [PStr ''a'']"
    by (simp add: accepts_insert_def n MAX_ROWID_def) (simp add: Node_table_def)
  have s: "save_insert ''Node'' Node_db Node_obj =
          (Inr (setattr Node_obj ''id'' (PInt 1)),
           Node_db(''Node'' \<mapsto> inserted Node_table [''label''] [PStr ''a'']))"
    using save_insert_ok [where db = Node_db and tn = "''Node''" and t = Node_table
        and obj = Node_obj] acc
    by (simp add: cut n Node_db_def)
  have i: "inserted Node_table [''label''] [PStr ''a''] =
             \<lparr>columns = [''label'', ''d''], rows = [(1, [PStr ''a'', PNone])], seq = 1\<rparr>"
    by (simp add: inserted_def new_row_def n) (simp add: Node_table_def)
  have 1: "map_of Node_obj ''id'' = None" by (simp add: Node_obj_def)
  have 2: "Manager_save ''Node'' Node_db Node_obj =
       (Inr [(''label'', PStr ''a''), (''d'', PInt 5), (''id'', PInt 1)],
        Node_db(''Node'' \<mapsto> \<lparr>columns = [''label'', ''d''], rows = [(1, [PStr ''a'', PNone])], seq = 1\<rparr>))"
    using s 1 by (simp add: Manager_save_def i) (simp add: setattr_def Node_obj_def)
  have 3: "Manager_get ''Node''
        (Node_db(''Node'' \<mapsto> \<lparr>columns = [''label'', ''d''], rows = [(1, [PStr ''a'', PNone])], seq = 1\<rparr>))
        (PInt 1) =
       (Inr [(''id'', PInt 1), (''label'', PStr ''a''), (''d'', PNone)],
        Node_db(''Node'' \<mapsto> \<lparr>columns = [''label'', ''d''], rows = [(1, [PStr ''a'', PNone])], seq = 1\<rparr>))"
    by (simp add: Manager_get_def execute_def MAX_ROWID_def id_is_def row_dict_def Manager_create_def)
  from 1 2 3 show ?thesis by blast
qed

end
